theory Spec2Isabelle
  imports Main "HOL-Library.Word"
begin

section \<open>Session store (src/contexts/AuthContext.tsx)\<close>

text \<open>
  The provider keeps one boolean of React state, \<open>isAuthenticated\<close>, next to the browser's
  \<open>localStorage\<close>. The storage is a map from keys to strings: \<open>getItem\<close> of an absent
  key is \<open>null\<close> (\<open>None\<close>), \<open>setItem\<close> stores any string, the empty one included, and
  \<open>removeItem\<close> deletes the key.
\<close>

type_synonym localStorage = "string \<rightharpoonup> string"

record auth_state =
  storage :: localStorage
  isAuthenticated :: bool

definition jwt_key :: string where
  "jwt_key = ''jwt_token''"

text \<open>\<open>!!token\<close> for a value of type \<open>string | null\<close>: \<open>null\<close> and the empty string are falsy.\<close>

definition truthy_token :: "string option \<Rightarrow> bool" where
  "truthy_token t = (case t of None \<Rightarrow> False | Some s \<Rightarrow> s \<noteq> [])"

text \<open>\<open>useState<boolean>(false)\<close>: the state of the first render, over the persisted storage.\<close>

definition mount :: "localStorage \<Rightarrow> auth_state" where
  "mount ls = \<lparr>storage = ls, isAuthenticated = False\<rparr>"

text \<open>The mount effect: \<open>const token = localStorage.getItem('jwt_token'); setIsAuthenticated(!!token)\<close>.\<close>

definition init_effect :: "auth_state \<Rightarrow> auth_state" where
  "init_effect s = s\<lparr>isAuthenticated := truthy_token (storage s jwt_key)\<rparr>"

definition initialise :: "localStorage \<Rightarrow> auth_state" where
  "initialise ls = init_effect (mount ls)"

definition login :: "string \<Rightarrow> auth_state \<Rightarrow> auth_state" where
  "login token s = s\<lparr>storage := (storage s)(jwt_key \<mapsto> token), isAuthenticated := True\<rparr>"

definition logout :: "auth_state \<Rightarrow> auth_state" where
  "logout s = s\<lparr>storage := (storage s)(jwt_key := None), isAuthenticated := False\<rparr>"

text \<open>
  What can happen to a mounted provider: a call of \<open>login\<close>, a call of \<open>logout\<close>, or a page
  reload, which mounts the provider again over the storage as it stands.
\<close>

datatype auth_op = Login string | Logout | Reload

fun auth_step :: "auth_state \<Rightarrow> auth_op \<Rightarrow> auth_state" where
  "auth_step s (Login token) = login token s"
| "auth_step s Logout = logout s"
| "auth_step s Reload = initialise (storage s)"

definition auth_run :: "localStorage \<Rightarrow> auth_op list \<Rightarrow> auth_state" where
  "auth_run ls ops = foldl auth_step (initialise ls) ops"

definition token_present :: "auth_state \<Rightarrow> bool" where
  "token_present s = (storage s jwt_key \<noteq> None)"

fun nonempty_login :: "auth_op \<Rightarrow> bool" where
  "nonempty_login (Login token) = (token \<noteq> [])"
| "nonempty_login Logout = True"
| "nonempty_login Reload = True"

definition no_empty_token :: "localStorage \<Rightarrow> bool" where
  "no_empty_token ls = (ls jwt_key \<noteq> Some [])"

definition auth_inv :: "auth_state \<Rightarrow> bool" where
  "auth_inv s = (isAuthenticated s = token_present s \<and> no_empty_token (storage s))"

section \<open>Values, responses and effects shared by the pages\<close>

text \<open>
  A response body is whatever JSON the server sent; the pages inspect it with truthiness
  tests, \<open>Array.isArray\<close> and reads of the property \<open>data\<close>. An object is an association
  list of its own properties.
\<close>

datatype json =
    JUndefined
  | JNull
  | JBool bool
  | JNum int
  | JStr string
  | JArr "json list"
  | JObj "(string \<times> json) list"

fun truthy :: "json \<Rightarrow> bool" where
  "truthy JUndefined = False"
| "truthy JNull = False"
| "truthy (JBool b) = b"
| "truthy (JNum n) = (n \<noteq> 0)"
| "truthy (JStr s) = (s \<noteq> [])"
| "truthy (JArr xs) = True"
| "truthy (JObj kvs) = True"

fun isArray :: "json \<Rightarrow> bool" where
  "isArray (JArr xs) = True"
| "isArray v = False"

fun nullish :: "json \<Rightarrow> bool" where
  "nullish JUndefined = True"
| "nullish JNull = True"
| "nullish v = False"

text \<open>
  \<open>v.data\<close> for a value \<open>v\<close> that is neither \<open>null\<close> nor \<open>undefined\<close>: an object gives its
  property, and arrays, strings, numbers and booleans have no property of that name.
\<close>

fun data_of :: "json \<Rightarrow> json" where
  "data_of (JObj kvs) = (case map_of kvs ''data'' of None \<Rightarrow> JUndefined | Some v \<Rightarrow> v)"
| "data_of v = JUndefined"

text \<open>\<open>v?.data\<close>: \<open>undefined\<close> when \<open>v\<close> is \<open>null\<close> or \<open>undefined\<close>.\<close>

definition opt_data_of :: "json \<Rightarrow> json" where
  "opt_data_of v = (if nullish v then JUndefined else data_of v)"

text \<open>
  What a rejected request carries: \<open>err.response?.data?.message\<close> and \<open>err.message\<close>, each a
  string or \<open>undefined\<close>. A request resolves on a 2xx status and rejects on every other
  status and on a network failure.
\<close>

record http_error =
  response_message :: "string option"
  message :: "string option"

datatype 'a response = Resolved 'a | Rejected http_error

text \<open>\<open>a || b\<close> for a string-or-undefined \<open>a\<close>: \<open>undefined\<close> and the empty string are falsy.\<close>

definition or_else :: "string option \<Rightarrow> string \<Rightarrow> string" where
  "or_else a b = (case a of None \<Rightarrow> b | Some s \<Rightarrow> if s \<noteq> [] then s else b)"

text \<open>
  A string that the code inspects character by character (the category name, which
  \<open>handleSave\<close> trims) is the list of its UTF-16 code units, as a JavaScript string is.
  Strings that are only stored, compared with a literal or shown are byte strings.
\<close>

type_synonym js_string = "16 word list"

record category =
  cat_id :: string
  cat_name :: js_string

record image =
  img_id :: string
  img_title :: string
  img_category :: category
  imageUrl :: string
  publicId :: string
  createdAt :: "string option"

record pagination =
  currentPage :: int
  totalPages :: int
  totalRecords :: int
  limit :: int
  hasNextPage :: bool
  hasPrevPage :: bool
  nextPage :: "int option"
  prevPage :: "int option"

record selected_file =
  file_name :: string
  file_size :: nat

text \<open>
  The query of a list request: \<open>page\<close>, \<open>limit\<close> and, unless the filter is \<open>'All'\<close>,
  \<open>category\<close>.
\<close>

record list_query =
  q_page :: int
  q_limit :: int
  q_category :: "string option"

datatype request =
    Get_categories
  | Post_category js_string
  | Put_category string js_string
  | Delete_category string
  | Get_images list_query
  | Delete_image string
  | Post_upload string string selected_file

text \<open>What a handler does beside updating the state, in the order it does it.\<close>

datatype effect =
    Http request
  | Read_as_data_url selected_file
  | Scroll_to_top
  | Navigate_later string

fun is_http :: "effect \<Rightarrow> bool" where
  "is_http (Http r) = True"
| "is_http e = False"

section \<open>Image listing (src/pages/ImageListing.tsx)\<close>

text \<open>
  The body of a list response, at the places \<open>fetchImages\<close> looks at: \<open>success\<close> as its
  truthiness, \<open>data\<close> when it is an array, \<open>pagination\<close> when it is truthy. The body itself
  may be falsy (\<open>None\<close>).
\<close>

record list_body =
  body_success :: bool
  body_data :: "image list option"
  body_pagination :: "pagination option"

type_synonym list_response = "list_body option response"

record il_state =
  il_images :: "image list"
  il_categories :: json
  il_loading :: bool
  il_error :: string
  il_selectedCategory :: string
  il_deletingId :: "string option"
  il_showDeleteModal :: bool
  il_imageToDelete :: "image option"
  il_currentPage :: int
  il_pagination :: "pagination option"

definition il_initial :: il_state where
  "il_initial = \<lparr>il_images = [], il_categories = JArr [], il_loading = True, il_error = [],
     il_selectedCategory = ''All'', il_deletingId = None, il_showDeleteModal = False,
     il_imageToDelete = None, il_currentPage = 1, il_pagination = None\<rparr>"

definition il_fetchCategories :: "il_state \<Rightarrow> json response \<Rightarrow> il_state" where
  "il_fetchCategories st res =
     (case res of
        Resolved d \<Rightarrow>
          if truthy (opt_data_of d) then st\<lparr>il_categories := opt_data_of d\<rparr>
          else if isArray d then st\<lparr>il_categories := d\<rparr>
          else st
      | Rejected e \<Rightarrow> st)"

definition il_query :: "il_state \<Rightarrow> list_query" where
  "il_query st =
     \<lparr>q_page = il_currentPage st, q_limit = 10,
      q_category = (if il_selectedCategory st \<noteq> ''All'' then Some (il_selectedCategory st) else None)\<rparr>"

definition fetch_errorMessage :: "http_error \<Rightarrow> string" where
  "fetch_errorMessage e = or_else (response_message e) (or_else (message e) ''Failed to fetch images'')"

text \<open>
  \<open>fetchImages\<close> from the arrival of the response on; the request it has sent is
  \<open>Get_images (il_query st)\<close>.
\<close>

definition fetchImages :: "il_state \<Rightarrow> list_response \<Rightarrow> il_state" where
  "fetchImages st res =
     (let st1 = st\<lparr>il_loading := True, il_error := []\<rparr>;
          st2 =
            (case res of
               Resolved body \<Rightarrow>
                 (case body of
                    None \<Rightarrow> st1\<lparr>il_error := ''Unexpected response from server''\<rparr>
                  | Some b \<Rightarrow>
                      if body_success b then
                        (let st3 =
                           (case body_data b of
                              Some xs \<Rightarrow> st1\<lparr>il_images := xs\<rparr>
                            | None \<Rightarrow> st1\<lparr>il_images := []\<rparr>)
                         in (case body_pagination b of
                               Some p \<Rightarrow> st3\<lparr>il_pagination := Some p\<rparr>
                             | None \<Rightarrow> st3))
                      else st1\<lparr>il_error := ''Unexpected response from server''\<rparr>)
             | Rejected e \<Rightarrow> st1\<lparr>il_error := fetch_errorMessage e\<rparr>)
      in st2\<lparr>il_loading := False\<rparr>)"

text \<open>
  \<open>useEffect(() => { fetchImages(); }, [selectedCategory, currentPage])\<close>: after a handler
  has run, the effect sends a list request when one of the two dependencies has changed,
  with the query of the new state.
\<close>

definition fetch_effect :: "il_state \<Rightarrow> il_state \<Rightarrow> effect list" where
  "fetch_effect old new =
     (if il_selectedCategory old \<noteq> il_selectedCategory new \<or> il_currentPage old \<noteq> il_currentPage new
      then [Http (Get_images (il_query new))] else [])"

definition handleCategoryChange :: "string \<Rightarrow> il_state \<Rightarrow> il_state" where
  "handleCategoryChange categoryId st = st\<lparr>il_selectedCategory := categoryId, il_currentPage := 1\<rparr>"

definition page_accepted :: "int \<Rightarrow> il_state \<Rightarrow> bool" where
  "page_accepted newPage st =
     (newPage \<ge> 1 \<and> (case il_pagination st of None \<Rightarrow> False | Some p \<Rightarrow> newPage \<le> totalPages p))"

definition handlePageChange :: "int \<Rightarrow> il_state \<Rightarrow> il_state \<times> effect list" where
  "handlePageChange newPage st =
     (if page_accepted newPage st then (st\<lparr>il_currentPage := newPage\<rparr>, [Scroll_to_top])
      else (st, []))"

text \<open>The two controller operations: the handler, then the fetch effect.\<close>

definition setFilter :: "string \<Rightarrow> il_state \<Rightarrow> il_state \<times> effect list" where
  "setFilter categoryId st =
     (let st' = handleCategoryChange categoryId st in (st', fetch_effect st st'))"

definition setPage :: "int \<Rightarrow> il_state \<Rightarrow> il_state \<times> effect list" where
  "setPage n st =
     (let (st', effs) = handlePageChange n st in (st', effs @ fetch_effect st st'))"

definition goToNextPage :: "il_state \<Rightarrow> il_state \<times> effect list" where
  "goToNextPage st =
     (case il_pagination st of
        None \<Rightarrow> (st, [])
      | Some p \<Rightarrow>
          (case nextPage p of
             None \<Rightarrow> (st, [])
           | Some n \<Rightarrow> if n \<noteq> 0 then setPage n st else (st, [])))"

definition handleDeleteClick :: "image \<Rightarrow> il_state \<Rightarrow> il_state" where
  "handleDeleteClick img st = st\<lparr>il_imageToDelete := Some img, il_showDeleteModal := True\<rparr>"

definition il_confirmDelete :: "il_state \<Rightarrow> json response \<Rightarrow> list_response \<Rightarrow> il_state \<times> effect list" where
  "il_confirmDelete st del res =
     (case il_imageToDelete st of
        None \<Rightarrow> (st, [])
      | Some img \<Rightarrow>
          (let st1 = st\<lparr>il_deletingId := Some (img_id img)\<rparr> in
           case del of
             Resolved d \<Rightarrow>
               ((fetchImages st1 res)
                  \<lparr>il_showDeleteModal := False, il_imageToDelete := None, il_deletingId := None\<rparr>,
                [Http (Delete_image (img_id img)), Http (Get_images (il_query st))])
           | Rejected e \<Rightarrow>
               (st1\<lparr>il_error := or_else (response_message e) ''Failed to delete image'',
                    il_showDeleteModal := False, il_imageToDelete := None, il_deletingId := None\<rparr>,
                [Http (Delete_image (img_id img))])))"

text \<open>What the listing container renders, by the order of the tests in the JSX.\<close>

datatype il_view = Spinner | Error_panel string | No_images | Grid "image list"

definition il_render :: "il_state \<Rightarrow> il_view" where
  "il_render st =
     (if il_loading st then Spinner
      else if il_error st \<noteq> [] then Error_panel (il_error st)
      else if il_images st = [] then No_images
      else Grid (il_images st))"

text \<open>
  The range property of the data model: when the last-fetched pagination counts at least
  one record, the controller's page lies between 1 and its \<open>totalPages\<close>.
\<close>

definition page_in_range :: "il_state \<Rightarrow> bool" where
  "page_in_range st =
     (case il_pagination st of
        None \<Rightarrow> True
      | Some p \<Rightarrow>
          if 0 < totalRecords p then 1 \<le> il_currentPage st \<and> il_currentPage st \<le> totalPages p
          else True)"

section \<open>Category management (src/pages/Categories.tsx)\<close>

datatype modal_mode = Create | Edit

record cm_state =
  cm_categories :: json
  cm_loading :: bool
  cm_error :: string
  cm_showModal :: bool
  cm_modalMode :: modal_mode
  cm_editingCategory :: "category option"
  cm_categoryName :: js_string
  cm_modalLoading :: bool
  cm_modalError :: string
  cm_showDeleteModal :: bool
  cm_categoryToDelete :: "category option"
  cm_deleteLoading :: bool

definition cm_initial :: cm_state where
  "cm_initial = \<lparr>cm_categories = JArr [], cm_loading = True, cm_error = [], cm_showModal = False,
     cm_modalMode = Create, cm_editingCategory = None, cm_categoryName = [],
     cm_modalLoading = False, cm_modalError = [], cm_showDeleteModal = False,
     cm_categoryToDelete = None, cm_deleteLoading = False\<rparr>"

definition cm_fetchCategories :: "cm_state \<Rightarrow> json response \<Rightarrow> cm_state" where
  "cm_fetchCategories st res =
     (let st1 = st\<lparr>cm_loading := True, cm_error := []\<rparr>;
          st2 =
            (case res of
               Resolved d \<Rightarrow>
                 if truthy (opt_data_of d) then st1\<lparr>cm_categories := opt_data_of d\<rparr>
                 else if isArray d then st1\<lparr>cm_categories := d\<rparr>
                 else st1
             | Rejected e \<Rightarrow>
                 st1\<lparr>cm_error := or_else (response_message e) ''Failed to fetch categories''\<rparr>)
      in st2\<lparr>cm_loading := False\<rparr>)"

definition openCreateModal :: "cm_state \<Rightarrow> cm_state" where
  "openCreateModal st =
     st\<lparr>cm_modalMode := Create, cm_categoryName := [], cm_editingCategory := None,
        cm_modalError := [], cm_showModal := True\<rparr>"

definition openEditModal :: "category \<Rightarrow> cm_state \<Rightarrow> cm_state" where
  "openEditModal c st =
     st\<lparr>cm_modalMode := Edit, cm_categoryName := cat_name c, cm_editingCategory := Some c,
        cm_modalError := [], cm_showModal := True\<rparr>"

definition closeModal :: "cm_state \<Rightarrow> cm_state" where
  "closeModal st =
     st\<lparr>cm_showModal := False, cm_categoryName := [], cm_editingCategory := None,
        cm_modalError := []\<rparr>"

text \<open>
  \<open>String.prototype.trim\<close> drops from both ends the code units that ECMAScript counts as
  white space or as line terminators: tab, line feed, vertical tab, form feed, carriage
  return, space, no-break space, the Unicode space separators (U+1680, U+2000 to U+200A,
  U+202F, U+205F, U+3000), the line and paragraph separators (U+2028, U+2029) and the
  byte order mark (U+FEFF). All of them are single code units.
\<close>

definition is_space :: "16 word \<Rightarrow> bool" where
  "is_space c =
     (c \<in> set [0x0009, 0x000A, 0x000B, 0x000C, 0x000D, 0x0020, 0x00A0, 0x1680,
                0x2000, 0x2001, 0x2002, 0x2003, 0x2004, 0x2005, 0x2006, 0x2007, 0x2008,
                0x2009, 0x200A, 0x2028, 0x2029, 0x202F, 0x205F, 0x3000, 0xFEFF])"

definition trim :: "js_string \<Rightarrow> js_string" where
  "trim s = rev (dropWhile is_space (rev (dropWhile is_space s)))"

text \<open>The request the \<open>try\<close> block of \<open>handleSave\<close> sends before the refetch, if any.\<close>

definition save_request :: "cm_state \<Rightarrow> request option" where
  "save_request st =
     (if cm_modalMode st = Create then Some (Post_category (trim (cm_categoryName st)))
      else (case cm_editingCategory st of
              Some c \<Rightarrow> Some (Put_category (cat_id c) (trim (cm_categoryName st)))
            | None \<Rightarrow> None))"

definition handleSave :: "cm_state \<Rightarrow> json response \<Rightarrow> json response \<Rightarrow> cm_state \<times> effect list" where
  "handleSave st mut res =
     (if trim (cm_categoryName st) = [] then (st\<lparr>cm_modalError := ''Category name is required''\<rparr>, [])
      else
        (let st1 = st\<lparr>cm_modalLoading := True, cm_modalError := []\<rparr> in
         case save_request st of
           None \<Rightarrow>
             ((closeModal (cm_fetchCategories st1 res))\<lparr>cm_modalLoading := False\<rparr>,
              [Http Get_categories])
         | Some rq \<Rightarrow>
             (case mut of
                Resolved d \<Rightarrow>
                  ((closeModal (cm_fetchCategories st1 res))\<lparr>cm_modalLoading := False\<rparr>,
                   [Http rq, Http Get_categories])
              | Rejected e \<Rightarrow>
                  (st1\<lparr>cm_modalError := or_else (response_message e) ''Failed to save category'',
                       cm_modalLoading := False\<rparr>,
                   [Http rq]))))"

definition openDeleteModal :: "category \<Rightarrow> cm_state \<Rightarrow> cm_state" where
  "openDeleteModal c st = st\<lparr>cm_categoryToDelete := Some c, cm_showDeleteModal := True\<rparr>"

definition closeDeleteModal :: "cm_state \<Rightarrow> cm_state" where
  "closeDeleteModal st = st\<lparr>cm_showDeleteModal := False, cm_categoryToDelete := None\<rparr>"

definition cm_confirmDelete :: "cm_state \<Rightarrow> json response \<Rightarrow> json response \<Rightarrow> cm_state \<times> effect list" where
  "cm_confirmDelete st del res =
     (case cm_categoryToDelete st of
        None \<Rightarrow> (st, [])
      | Some c \<Rightarrow>
          (let st1 = st\<lparr>cm_deleteLoading := True\<rparr> in
           case del of
             Resolved d \<Rightarrow>
               ((closeDeleteModal (cm_fetchCategories st1 res))\<lparr>cm_deleteLoading := False\<rparr>,
                [Http (Delete_category (cat_id c)), Http Get_categories])
           | Rejected e \<Rightarrow>
               ((closeDeleteModal
                   (st1\<lparr>cm_error := or_else (response_message e) ''Failed to delete category''\<rparr>))
                  \<lparr>cm_deleteLoading := False\<rparr>,
                [Http (Delete_category (cat_id c))])))"

section \<open>Image upload (src/pages/ImageUpload.tsx)\<close>

record iu_state =
  iu_title :: string
  iu_category :: string
  iu_image :: "selected_file option"
  iu_preview :: string
  iu_loading :: bool
  iu_error :: string
  iu_success :: bool
  iu_categories :: json

definition iu_initial :: iu_state where
  "iu_initial = \<lparr>iu_title = [], iu_category = [], iu_image = None, iu_preview = [],
     iu_loading = False, iu_error = [], iu_success = False, iu_categories = JArr []\<rparr>"

definition max_file_size :: nat where
  "max_file_size = 10 * 1024 * 1024"

text \<open>
  \<open>handleImageChange\<close>, with \<open>e.target.files?.[0]\<close> as an optional file. The preview is set
  later, when the reader started here has loaded the file.
\<close>

definition handleImageChange :: "selected_file option \<Rightarrow> iu_state \<Rightarrow> iu_state \<times> effect list" where
  "handleImageChange fo st =
     (case fo of
        None \<Rightarrow> (st, [])
      | Some f \<Rightarrow>
          if file_size f > max_file_size
          then (st\<lparr>iu_error := ''File size must be less than 10MB''\<rparr>, [])
          else (st\<lparr>iu_image := Some f, iu_error := []\<rparr>, [Read_as_data_url f]))"

definition reader_onloadend :: "string \<Rightarrow> iu_state \<Rightarrow> iu_state" where
  "reader_onloadend result st = st\<lparr>iu_preview := result\<rparr>"

definition handleSubmit :: "iu_state \<Rightarrow> json response \<Rightarrow> iu_state \<times> effect list" where
  "handleSubmit st res =
     (case iu_image st of
        None \<Rightarrow> (st\<lparr>iu_error := ''Please select an image''\<rparr>, [])
      | Some img \<Rightarrow>
          (let st1 = st\<lparr>iu_loading := True, iu_error := [], iu_success := False\<rparr>;
               rq = Http (Post_upload (iu_title st) (iu_category st) img)
           in case res of
                Resolved d \<Rightarrow>
                  (st1\<lparr>iu_success := True, iu_title := [], iu_category := [], iu_image := None,
                       iu_preview := [], iu_loading := False\<rparr>,
                   [rq, Navigate_later ''/dashboard''])
              | Rejected e \<Rightarrow>
                  (st1\<lparr>iu_error := or_else (response_message e)
                                     ''Failed to upload image. Please try again.'',
                       iu_loading := False\<rparr>,
                   [rq])))"

text \<open>
  \<open>fetchCategories\<close> of the upload page reads \<open>res.data.data\<close> with no test of the shape; a
  \<open>null\<close> or \<open>undefined\<close> body makes the read throw, which the \<open>catch\<close> turns into the error
  message.
\<close>

definition iu_fetchCategories :: "iu_state \<Rightarrow> json response \<Rightarrow> iu_state" where
  "iu_fetchCategories st res =
     (case res of
        Resolved d \<Rightarrow>
          if nullish d then st\<lparr>iu_error := ''Failed to load categories''\<rparr>
          else st\<lparr>iu_categories := data_of d\<rparr>
      | Rejected e \<Rightarrow> st\<lparr>iu_error := ''Failed to load categories''\<rparr>)"

text \<open>
  The category selector renders \<open>categories.length > 0 ? ... : ...\<close>: reading \<open>length\<close>
  of \<open>undefined\<close> or \<open>null\<close> throws a TypeError, and of no other value.
\<close>

definition length_read_throws :: "json \<Rightarrow> bool" where
  "length_read_throws v = nullish v"

section \<open>Sample values\<close>

text \<open>
  The names \<open>Nature\<close> and \<open>Wildlife\<close> in code units, \<open>Wildlife\<close> typed with a
  no-break space before it and a space after it, and a name of white space only: a
  no-break space, an ideographic space, a space and a tab.
\<close>

definition name_nature :: js_string where
  "name_nature = [0x4E, 0x61, 0x74, 0x75, 0x72, 0x65]"

definition name_wildlife :: js_string where
  "name_wildlife = [0x57, 0x69, 0x6C, 0x64, 0x6C, 0x69, 0x66, 0x65]"

definition padded_wildlife :: js_string where
  "padded_wildlife = 0x00A0 # name_wildlife @ [0x0020]"

definition blank_name :: js_string where
  "blank_name = [0x00A0, 0x3000, 0x0020, 0x0009]"

definition sample_category :: category where
  "sample_category = \<lparr>cat_id = ''c1'', cat_name = name_nature\<rparr>"

definition sample_image :: "string \<Rightarrow> image" where
  "sample_image i =
     \<lparr>img_id = i, img_title = ''Sunset'', img_category = sample_category,
      imageUrl = ''https://cdn.example/'' @ i, publicId = i, createdAt = None\<rparr>"

text \<open>The pagination a server reports for page \<open>p\<close> of \<open>tp\<close> pages over \<open>tr\<close> records.\<close>

definition page_info :: "int \<Rightarrow> int \<Rightarrow> int \<Rightarrow> pagination" where
  "page_info p tp tr =
     \<lparr>currentPage = p, totalPages = tp, totalRecords = tr, limit = 10,
      hasNextPage = (p < tp), hasPrevPage = (1 < p),
      nextPage = (if p < tp then Some (p + 1) else None),
      prevPage = (if 1 < p then Some (p - 1) else None)\<rparr>"

definition list_ok :: "image list \<Rightarrow> pagination \<Rightarrow> list_response" where
  "list_ok xs p = Resolved (Some \<lparr>body_success = True, body_data = Some xs, body_pagination = Some p\<rparr>)"

text \<open>The listing on page 2 of 3, twenty-one images in all.\<close>

definition browsing_state :: il_state where
  "browsing_state = il_initial\<lparr>il_images := [sample_image ''i11''], il_loading := False,
      il_currentPage := 2, il_pagination := Some (page_info 2 3 21)\<rparr>"

text \<open>
  A visit that ends on the last page: the first page is fetched, page 3 is chosen and
  fetched, and it holds the twenty-first image alone.
\<close>

definition page3_state :: il_state where
  "page3_state =
     fetchImages (fst (setPage 3 (fetchImages il_initial
         (list_ok (map sample_image [''i01'', ''i02'', ''i03'', ''i04'', ''i05'',
            ''i06'', ''i07'', ''i08'', ''i09'', ''i10'']) (page_info 1 3 21)))))
       (list_ok [sample_image ''i21''] (page_info 3 3 21))"

text \<open>
  That image is deleted: the delete request succeeds and the refetch of page 3 finds
  twenty images on two pages.
\<close>

definition after_last_delete :: il_state where
  "after_last_delete =
     fst (il_confirmDelete (handleDeleteClick (sample_image ''i21'') page3_state)
            (Resolved JNull) (list_ok [] (page_info 3 2 20)))"

text \<open>The listing with the delete dialog open on the image shown.\<close>

definition confirming_state :: il_state where
  "confirming_state = handleDeleteClick (sample_image ''i11'') browsing_state"

text \<open>A category list as the server sends it, and the category page with its dialogs open.\<close>

definition sample_categories :: json where
  "sample_categories =
     JArr [JObj [(''_id'', JStr ''c1''), (''name'', JStr ''Nature'')],
           JObj [(''_id'', JStr ''c2''), (''name'', JStr ''Animals'')]]"

definition editing_state :: cm_state where
  "editing_state = (openEditModal sample_category
      (cm_initial\<lparr>cm_loading := False,
         cm_categories := JArr [JObj [(''_id'', JStr ''c1''), (''name'', JStr ''Nature'')]]\<rparr>))
      \<lparr>cm_categoryName := padded_wildlife\<rparr>"

definition deleting_state :: cm_state where
  "deleting_state = openDeleteModal sample_category
      (cm_initial\<lparr>cm_loading := False,
         cm_categories := JArr [JObj [(''_id'', JStr ''c1''), (''name'', JStr ''Nature'')]]\<rparr>)"

definition sample_error :: http_error where
  "sample_error = \<lparr>response_message = Some ''Category is in use'', message = Some ''Request failed with status code 409''\<rparr>"

text \<open>
  A file one byte over the ceiling, a small one, and the upload form with the small file
  staged and its preview loaded.
\<close>

definition big_file :: selected_file where
  "big_file = \<lparr>file_name = ''huge.png'', file_size = 10485761\<rparr>"

definition small_file :: selected_file where
  "small_file = \<lparr>file_name = ''cat.png'', file_size = 2048\<rparr>"

definition staged_state :: iu_state where
  "staged_state = reader_onloadend ''data:image/png;base64,AAAA''
     (fst (handleImageChange (Some small_file) (iu_initial\<lparr>iu_title := ''Cat''\<rparr>)))"

section \<open>Session store: results\<close>

lemma auth_inv_initialise: "no_empty_token ls \<Longrightarrow> auth_inv (initialise ls)"
  by (cases "ls jwt_key")
    (simp_all add: auth_inv_def initialise_def init_effect_def mount_def truthy_token_def
      token_present_def no_empty_token_def)

lemma auth_inv_step: "auth_inv s \<Longrightarrow> nonempty_login x \<Longrightarrow> auth_inv (auth_step s x)"
proof (cases x)
  case (Login token)
  assume "nonempty_login x"
  with Login show ?thesis
    by (simp add: auth_inv_def login_def token_present_def no_empty_token_def)
next
  case Logout
  then show ?thesis
    by (simp add: auth_inv_def logout_def token_present_def no_empty_token_def)
next
  case Reload
  assume "auth_inv s"
  then have "no_empty_token (storage s)" by (simp add: auth_inv_def)
  with Reload show ?thesis by (simp add: auth_inv_initialise)
qed

lemma auth_inv_foldl:
  "auth_inv s \<Longrightarrow> list_all nonempty_login ops \<Longrightarrow> auth_inv (foldl auth_step s ops)"
  by (induction ops arbitrary: s) (simp_all add: auth_inv_step)

text \<open>
  C1, as amended. \<open>login\<close> writes its token and sets the flag, \<open>logout\<close> removes the token
  and clears the flag. When the persisted storage holds no empty token and no \<open>login\<close> is
  called with the empty string, the flag set by the initialisation is the presence of the
  persisted token, and after every sequence of logins, logouts and reloads
  \<open>isAuthenticated\<close> is true exactly when a token is present in the storage.
\<close>

theorem session_flag_tracks_token:
  assumes "no_empty_token ls" and "list_all nonempty_login ops"
  shows "isAuthenticated (auth_run ls ops) = token_present (auth_run ls ops) \<and>
         isAuthenticated (initialise ls) = token_present (initialise ls) \<and>
         storage (login token s) jwt_key = Some token \<and> isAuthenticated (login token s) \<and>
         storage (logout s) jwt_key = None \<and> \<not> isAuthenticated (logout s)"
proof -
  have i: "auth_inv (initialise ls)" using assms(1) by (rule auth_inv_initialise)
  then have "auth_inv (auth_run ls ops)"
    unfolding auth_run_def using assms(2) by (rule auth_inv_foldl)
  with i show ?thesis by (simp add: auth_inv_def login_def logout_def)
qed

theorem session_flag_tracks_token_witness:
  "no_empty_token Map.empty \<and> list_all nonempty_login [Login ''abc'', Reload, Logout, Login ''xyz''] \<and>
   isAuthenticated (auth_run Map.empty [Login ''abc'', Reload, Logout, Login ''xyz'']) \<and>
   token_present (auth_run Map.empty [Login ''abc'', Reload, Logout, Login ''xyz''])"
proof -
  have a: "no_empty_token Map.empty" by (simp add: no_empty_token_def)
  have b: "list_all nonempty_login [Login ''abc'', Reload, Logout, Login ''xyz'']" by simp
  have c: "token_present (auth_run Map.empty [Login ''abc'', Reload, Logout, Login ''xyz''])"
    by (simp add: auth_run_def token_present_def login_def)
  from session_flag_tracks_token [OF a b] a b c show ?thesis by simp
qed

text \<open>
  C1, as stated, fails for the empty string: \<open>login('')\<close> stores the empty token and sets the
  flag, and the next initialisation reads the stored empty string as falsy, so the flag is
  false while the token is still in the storage.
\<close>

theorem session_empty_token_counterexample:
  "token_present (auth_run Map.empty [Login [], Reload]) \<and>
   \<not> isAuthenticated (auth_run Map.empty [Login [], Reload])"
  by (simp add: auth_run_def token_present_def login_def initialise_def init_effect_def
      mount_def truthy_token_def jwt_key_def)

section \<open>Image listing: results\<close>

subsection \<open>The page range\<close>

lemma setPage_keeps_range: "page_in_range st \<Longrightarrow> page_in_range (fst (setPage n st))"
  by (cases "il_pagination st")
    (simp_all add: page_in_range_def setPage_def handlePageChange_def page_accepted_def)

lemma setFilter_keeps_range: "page_in_range st \<Longrightarrow> page_in_range (fst (setFilter c st))"
  by (cases "il_pagination st")
    (auto simp: page_in_range_def setFilter_def handleCategoryChange_def Let_def split: if_splits)

lemma failed_fetch_keeps_range: "page_in_range st \<Longrightarrow> page_in_range (fetchImages st (Rejected e))"
  by (cases "il_pagination st") (simp_all add: page_in_range_def fetchImages_def)

lemma page3_state_eq:
  "page3_state = il_initial\<lparr>il_images := [sample_image ''i21''], il_loading := False,
      il_currentPage := 3, il_pagination := Some (page_info 3 3 21)\<rparr>"
  by (simp add: page3_state_def fetchImages_def setPage_def handlePageChange_def page_accepted_def
      list_ok_def il_initial_def page_info_def fetch_effect_def)

lemma after_last_delete_eq:
  "after_last_delete = il_initial\<lparr>il_images := [], il_loading := False,
      il_currentPage := 3, il_pagination := Some (page_info 3 2 20)\<rparr>"
  by (simp add: after_last_delete_def page3_state_eq il_confirmDelete_def handleDeleteClick_def
      fetchImages_def list_ok_def il_initial_def)

text \<open>
  C2. The handlers keep the page in range (the three lemmas above), but a refetch stores
  the pagination of the response and leaves \<open>currentPage\<close> as it is. On the last page of
  three, holding one image, deleting that image and refetching gives a pagination of two
  pages over twenty records while the controller stays on page 3: the range property held
  before the delete and fails after it, and the view shows the empty state.
\<close>

theorem delete_last_image_leaves_page_out_of_range:
  "page_in_range page3_state \<and>
   \<not> page_in_range after_last_delete \<and>
   il_currentPage after_last_delete = 3 \<and>
   map_option totalPages (il_pagination after_last_delete) = Some 2 \<and>
   map_option totalRecords (il_pagination after_last_delete) = Some 20 \<and>
   il_render after_last_delete = No_images"
  by (simp add: page3_state_eq after_last_delete_eq page_in_range_def il_initial_def page_info_def
      il_render_def)

subsection \<open>Changing the page\<close>

lemma setPage_rejected: "\<not> page_accepted n st \<Longrightarrow> setPage n st = (st, [])"
  by (simp add: setPage_def handlePageChange_def fetch_effect_def)

lemma setPage_accepted:
  "page_accepted n st \<Longrightarrow>
   setPage n st =
     (st\<lparr>il_currentPage := n\<rparr>,
      Scroll_to_top # (if n = il_currentPage st then []
                       else [Http (Get_images ((il_query st)\<lparr>q_page := n\<rparr>))]))"
  by (simp add: setPage_def handlePageChange_def fetch_effect_def il_query_def)

text \<open>
  C3, as amended. \<open>setPage n\<close> changes nothing and sends nothing when \<open>n < 1\<close>, when no
  pagination has been fetched, or when \<open>n\<close> exceeds the \<open>totalPages\<close> of the last fetched
  pagination. When \<open>1 \<le> n \<le> totalPages\<close> it sets \<open>currentPage\<close> to \<open>n\<close>, and the list
  request for page \<open>n\<close> (same limit, same filter) is sent exactly when \<open>n\<close> differs from the
  page the controller was on: the fetch is an effect of a changed \<open>currentPage\<close>.
\<close>

theorem setPage_behaviour:
  "(n < 1 \<or> il_pagination st = None \<or> (\<exists>p. il_pagination st = Some p \<and> totalPages p < n)
      \<longrightarrow> setPage n st = (st, [])) \<and>
   (1 \<le> n \<and> (\<exists>p. il_pagination st = Some p \<and> n \<le> totalPages p)
      \<longrightarrow> fst (setPage n st) = st\<lparr>il_currentPage := n\<rparr> \<and>
          filter is_http (snd (setPage n st)) =
            (if n = il_currentPage st then []
             else [Http (Get_images \<lparr>q_page = n, q_limit = 10,
                     q_category = (if il_selectedCategory st \<noteq> ''All''
                                   then Some (il_selectedCategory st) else None)\<rparr>)]))"
proof (intro conjI impI)
  assume "n < 1 \<or> il_pagination st = None \<or> (\<exists>p. il_pagination st = Some p \<and> totalPages p < n)"
  then have "\<not> page_accepted n st"
    by (auto simp: page_accepted_def)
  then show "setPage n st = (st, [])" by (rule setPage_rejected)
next
  assume a: "1 \<le> n \<and> (\<exists>p. il_pagination st = Some p \<and> n \<le> totalPages p)"
  then have acc: "page_accepted n st" by (auto simp: page_accepted_def)
  show "fst (setPage n st) = st\<lparr>il_currentPage := n\<rparr>"
    by (simp add: setPage_accepted [OF acc])
  show "filter is_http (snd (setPage n st)) =
            (if n = il_currentPage st then []
             else [Http (Get_images \<lparr>q_page = n, q_limit = 10,
                     q_category = (if il_selectedCategory st \<noteq> ''All''
                                   then Some (il_selectedCategory st) else None)\<rparr>)])"
    by (simp add: setPage_accepted [OF acc] il_query_def)
qed

theorem setPage_behaviour_witness:
  "setPage 0 browsing_state = (browsing_state, []) \<and>
   setPage 4 browsing_state = (browsing_state, []) \<and>
   setPage 1 il_initial = (il_initial, []) \<and>
   fst (setPage 3 browsing_state) = browsing_state\<lparr>il_currentPage := 3\<rparr> \<and>
   filter is_http (snd (setPage 3 browsing_state)) =
     [Http (Get_images \<lparr>q_page = 3, q_limit = 10, q_category = None\<rparr>)] \<and>
   filter is_http (snd (setPage 2 browsing_state)) = []"
proof -
  have p: "il_pagination browsing_state = Some (page_info 2 3 21)"
    by (simp add: browsing_state_def)
  have t: "totalPages (page_info 2 3 21) = 3" by (simp add: page_info_def)
  have c: "il_currentPage browsing_state = 2" "il_selectedCategory browsing_state = ''All''"
    by (simp_all add: browsing_state_def il_initial_def)
  have n: "il_pagination il_initial = None" by (simp add: il_initial_def)
  have low: "setPage 0 browsing_state = (browsing_state, [])"
    using setPage_behaviour [of 0 browsing_state] by simp
  have high: "setPage 4 browsing_state = (browsing_state, [])"
    using setPage_behaviour [of 4 browsing_state] p t by simp
  have none: "setPage 1 il_initial = (il_initial, [])"
    using setPage_behaviour [of 1 il_initial] n by simp
  have ok3: "fst (setPage 3 browsing_state) = browsing_state\<lparr>il_currentPage := 3\<rparr> \<and>
     filter is_http (snd (setPage 3 browsing_state)) =
       [Http (Get_images \<lparr>q_page = 3, q_limit = 10, q_category = None\<rparr>)]"
    using setPage_behaviour [of 3 browsing_state] p t c by simp
  have ok2: "filter is_http (snd (setPage 2 browsing_state)) = []"
    using setPage_behaviour [of 2 browsing_state] p t c by simp
  from low high none ok3 ok2 show ?thesis by simp
qed

text \<open>
  C3, as stated, fails when \<open>n\<close> is the page the controller is on: page 2 of 3 is
  accepted, the state is the same afterwards and no request is sent.
\<close>

theorem setPage_same_page_counterexample:
  "il_currentPage browsing_state = 2 \<and>
   map_option totalPages (il_pagination browsing_state) = Some 3 \<and>
   setPage 2 browsing_state = (browsing_state, [Scroll_to_top])"
  by (simp add: page_accepted_def browsing_state_def il_initial_def page_info_def setPage_def
      handlePageChange_def fetch_effect_def)

text \<open>
  The scenario of the specification: after a response with two images and the pagination
  of page 1 of 3, \<open>goToNextPage\<close> sends the list request for page 2.
\<close>

lemma goToNextPage_scenario:
  "il_images (fetchImages il_initial
      (list_ok [sample_image ''i01'', sample_image ''i02''] (page_info 1 3 25))) =
     [sample_image ''i01'', sample_image ''i02''] \<and>
   filter is_http (snd (goToNextPage (fetchImages il_initial
      (list_ok [sample_image ''i01'', sample_image ''i02''] (page_info 1 3 25))))) =
     [Http (Get_images \<lparr>q_page = 2, q_limit = 10, q_category = None\<rparr>)]"
  by (simp add: fetchImages_def list_ok_def il_initial_def page_info_def goToNextPage_def
      setPage_def handlePageChange_def page_accepted_def fetch_effect_def il_query_def)

subsection \<open>Changing the filter\<close>

text \<open>
  C4. For every category and every state, \<open>setFilter c\<close> makes \<open>c\<close> the active filter and
  sets \<open>currentPage\<close> to 1 in the same update; every request it triggers is the list
  request with \<open>page = 1\<close> for that filter, and one is triggered whenever the filter or the
  page has changed.
\<close>

theorem setFilter_resets_page:
  "fst (setFilter c st) = st\<lparr>il_selectedCategory := c, il_currentPage := 1\<rparr> \<and>
   (\<forall>e \<in> set (snd (setFilter c st)).
      e = Http (Get_images \<lparr>q_page = 1, q_limit = 10,
                 q_category = (if c \<noteq> ''All'' then Some c else None)\<rparr>)) \<and>
   (c \<noteq> il_selectedCategory st \<or> il_currentPage st \<noteq> 1 \<longrightarrow>
      snd (setFilter c st) =
        [Http (Get_images \<lparr>q_page = 1, q_limit = 10,
                 q_category = (if c \<noteq> ''All'' then Some c else None)\<rparr>)])"
  by (simp add: setFilter_def handleCategoryChange_def fetch_effect_def il_query_def Let_def)

theorem setFilter_resets_page_witness:
  "fst (setFilter ''Nature'' browsing_state) =
     browsing_state\<lparr>il_selectedCategory := ''Nature'', il_currentPage := 1\<rparr> \<and>
   ''Nature'' \<noteq> il_selectedCategory browsing_state \<and>
   snd (setFilter ''Nature'' browsing_state) =
     [Http (Get_images \<lparr>q_page = 1, q_limit = 10, q_category = Some ''Nature''\<rparr>)]"
proof -
  note t = setFilter_resets_page [of "''Nature''" browsing_state]
  have c: "''Nature'' \<noteq> il_selectedCategory browsing_state"
    by (simp add: browsing_state_def il_initial_def)
  then have h: "''Nature'' \<noteq> il_selectedCategory browsing_state \<or> il_currentPage browsing_state \<noteq> 1"
    by (rule disjI1)
  have a: "fst (setFilter ''Nature'' browsing_state) =
     browsing_state\<lparr>il_selectedCategory := ''Nature'', il_currentPage := 1\<rparr>"
    by (rule conjunct1 [OF t])
  have "snd (setFilter ''Nature'' browsing_state) =
     [Http (Get_images \<lparr>q_page = 1, q_limit = 10,
         q_category = (if ''Nature'' \<noteq> ''All'' then Some ''Nature'' else None)\<rparr>)]"
    by (rule mp [OF conjunct2 [OF conjunct2 [OF t]] h])
  then have d: "snd (setFilter ''Nature'' browsing_state) =
     [Http (Get_images \<lparr>q_page = 1, q_limit = 10, q_category = Some ''Nature''\<rparr>)]"
    by simp
  show ?thesis by (intro conjI a c d)
qed

subsection \<open>The arrival of a list response\<close>

text \<open>
  C5, as amended. On a response whose body has a truthy \<open>success\<close>, \<open>fetchImages\<close> replaces
  the whole image collection by the response's \<open>data\<close> array (by the empty list when
  \<open>data\<close> is not an array), whatever was held before, and replaces the pagination by the
  response's whenever the response carries one; a response without a pagination leaves
  the pagination held before in place.
\<close>

theorem fetchImages_success:
  assumes "body_success b"
  shows "il_images (fetchImages st (Resolved (Some b))) =
           (case body_data b of Some xs \<Rightarrow> xs | None \<Rightarrow> []) \<and>
         il_pagination (fetchImages st (Resolved (Some b))) =
           (case body_pagination b of Some p \<Rightarrow> Some p | None \<Rightarrow> il_pagination st)"
  using assms by (simp add: fetchImages_def Let_def split: option.splits)

theorem fetchImages_success_witness:
  "body_success \<lparr>body_success = True, body_data = Some [sample_image ''i01''],
      body_pagination = Some (page_info 1 1 1)\<rparr> \<and>
   il_images (fetchImages browsing_state (list_ok [sample_image ''i01''] (page_info 1 1 1))) =
     [sample_image ''i01''] \<and>
   il_pagination (fetchImages browsing_state (list_ok [sample_image ''i01''] (page_info 1 1 1))) =
     Some (page_info 1 1 1)"
proof -
  have h: "body_success \<lparr>body_success = True, body_data = Some [sample_image ''i01''],
      body_pagination = Some (page_info 1 1 1)\<rparr>" by simp
  from fetchImages_success [OF h, of browsing_state] h show ?thesis
    by (simp add: list_ok_def)
qed

text \<open>
  C5, as stated, fails for a successful response that carries no pagination: the new
  images stand next to the pagination of the earlier response.
\<close>

theorem fetchImages_keeps_old_pagination_counterexample:
  "il_pagination browsing_state = Some (page_info 2 3 21) \<and>
   il_pagination (fetchImages browsing_state
      (Resolved (Some \<lparr>body_success = True, body_data = Some [sample_image ''i01''],
          body_pagination = None\<rparr>))) = Some (page_info 2 3 21) \<and>
   il_images (fetchImages browsing_state
      (Resolved (Some \<lparr>body_success = True, body_data = Some [sample_image ''i01''],
          body_pagination = None\<rparr>))) = [sample_image ''i01'']"
  by (simp add: fetchImages_def browsing_state_def il_initial_def)

lemma or_else_nonempty: "b \<noteq> [] \<Longrightarrow> or_else a b \<noteq> []"
  by (simp add: or_else_def split: option.splits)

lemma fetch_errorMessage_nonempty: "fetch_errorMessage e \<noteq> []"
  by (simp add: fetch_errorMessage_def or_else_nonempty)

text \<open>
  C6, as amended. On a rejected list request \<open>fetchImages\<close> sets a non-empty error message
  (the server's message, else the error's own, else the fallback) and the view renders
  the error panel instead of the collection; the image collection and the pagination held
  in the state are left as they were.
\<close>

theorem fetchImages_failure:
  "fetchImages st (Rejected e) = st\<lparr>il_loading := False, il_error := fetch_errorMessage e\<rparr> \<and>
   il_images (fetchImages st (Rejected e)) = il_images st \<and>
   il_pagination (fetchImages st (Rejected e)) = il_pagination st \<and>
   il_render (fetchImages st (Rejected e)) = Error_panel (fetch_errorMessage e)"
  by (simp add: fetchImages_def il_render_def fetch_errorMessage_nonempty)

text \<open>
  C6, as stated, fails on the collection state: after a rejected request the image fetched
  before is still in the state.
\<close>

theorem fetchImages_failure_keeps_images_counterexample:
  "il_images (fetchImages browsing_state
      (Rejected \<lparr>response_message = Some ''Internal server error'', message = None\<rparr>)) =
     [sample_image ''i11'']"
  by (simp add: fetchImages_def browsing_state_def il_initial_def)

section \<open>Mutation flows: results\<close>

lemma handleSave_resolved:
  assumes "trim (cm_categoryName st) \<noteq> []" and "save_request st = Some rq"
  shows "handleSave st (Resolved d) res =
           ((closeModal (cm_fetchCategories (st\<lparr>cm_modalLoading := True, cm_modalError := []\<rparr>) res))
              \<lparr>cm_modalLoading := False\<rparr>,
            [Http rq, Http Get_categories])"
  using assms by (simp add: handleSave_def)

lemma handleSave_rejected:
  assumes "trim (cm_categoryName st) \<noteq> []" and "save_request st = Some rq"
  shows "handleSave st (Rejected e) res =
           (st\<lparr>cm_modalError := or_else (response_message e) ''Failed to save category'',
               cm_modalLoading := False\<rparr>,
            [Http rq])"
  using assms by (simp add: handleSave_def)

lemma cm_fetchCategories_frame:
  "cm_categories (cm_fetchCategories (st\<lparr>cm_modalLoading := a, cm_modalError := b\<rparr>) res) =
     cm_categories (cm_fetchCategories st res)"
  "cm_categories (cm_fetchCategories (st\<lparr>cm_deleteLoading := a\<rparr>) res) =
     cm_categories (cm_fetchCategories st res)"
  by (simp_all add: cm_fetchCategories_def Let_def split: response.splits)

lemma cm_confirmDelete_resolved:
  assumes "cm_categoryToDelete st = Some c"
  shows "cm_confirmDelete st (Resolved d) res =
           ((closeDeleteModal (cm_fetchCategories (st\<lparr>cm_deleteLoading := True\<rparr>) res))
              \<lparr>cm_deleteLoading := False\<rparr>,
            [Http (Delete_category (cat_id c)), Http Get_categories])"
  using assms by (simp add: cm_confirmDelete_def)

lemma cm_confirmDelete_rejected:
  assumes "cm_categoryToDelete st = Some c"
  shows "cm_confirmDelete st (Rejected e) res =
           (st\<lparr>cm_error := or_else (response_message e) ''Failed to delete category'',
               cm_showDeleteModal := False, cm_categoryToDelete := None, cm_deleteLoading := False\<rparr>,
            [Http (Delete_category (cat_id c))])"
  using assms by (simp add: cm_confirmDelete_def closeDeleteModal_def)

lemma il_confirmDelete_resolved:
  assumes "il_imageToDelete st = Some img"
  shows "il_confirmDelete st (Resolved d) res =
           ((fetchImages (st\<lparr>il_deletingId := Some (img_id img)\<rparr>) res)
              \<lparr>il_showDeleteModal := False, il_imageToDelete := None, il_deletingId := None\<rparr>,
            [Http (Delete_image (img_id img)), Http (Get_images (il_query st))])"
  using assms by (simp add: il_confirmDelete_def)

lemma il_confirmDelete_rejected:
  assumes "il_imageToDelete st = Some img"
  shows "il_confirmDelete st (Rejected e) res =
           (st\<lparr>il_error := or_else (response_message e) ''Failed to delete image'',
               il_showDeleteModal := False, il_imageToDelete := None, il_deletingId := None\<rparr>,
            [Http (Delete_image (img_id img))])"
  using assms by (simp add: il_confirmDelete_def)

lemma fetchImages_frame:
  "il_images (fetchImages (st\<lparr>il_deletingId := a\<rparr>) res) = il_images (fetchImages st res)"
  by (simp add: fetchImages_def Let_def split: response.splits option.splits)

lemma handleSubmit_resolved:
  assumes "iu_image st = Some f"
  shows "handleSubmit st (Resolved d) =
           (st\<lparr>iu_loading := False, iu_error := [], iu_success := True, iu_title := [],
               iu_category := [], iu_image := None, iu_preview := []\<rparr>,
            [Http (Post_upload (iu_title st) (iu_category st) f), Navigate_later ''/dashboard''])"
  using assms by (simp add: handleSubmit_def)

lemma handleSubmit_rejected:
  assumes "iu_image st = Some f"
  shows "handleSubmit st (Rejected e) =
           (st\<lparr>iu_loading := False, iu_success := False,
               iu_error := or_else (response_message e) ''Failed to upload image. Please try again.''\<rparr>,
            [Http (Post_upload (iu_title st) (iu_category st) f)])"
  using assms by (simp add: handleSubmit_def)

lemma trim_padded_wildlife: "trim padded_wildlife = name_wildlife"
  unfolding trim_def padded_wildlife_def name_wildlife_def by (simp add: is_space_def)

text \<open>
  C7, as amended. For every create, update and delete on categories and images, once its
  request is sent. A category create or update, a category delete and an image delete
  close their modal or dialog on success and fetch the list again, the collection
  afterwards being the one that refetch yields. An image creation has no modal and no
  list: on success it sets the success flag, empties the form and schedules the
  navigation to the dashboard, and sends no list request. On failure of a category create
  or update the server's message (or the fallback) is set as the modal's error, the modal
  stays as it was and no refetch is sent; on failure of an image creation the message is
  set as the page's error and the form keeps its contents; on failure of a delete the
  confirmation dialog is closed, the message becomes the page's error and no refetch is
  sent.
\<close>

theorem mutation_outcomes:
  assumes "trim (cm_categoryName st) \<noteq> []" and "save_request st = Some rq"
    and "cm_categoryToDelete dst = Some c" and "il_imageToDelete ist = Some img"
    and "iu_image ust = Some f"
  shows "snd (handleSave st (Resolved d) res) = [Http rq, Http Get_categories] \<and>
         \<not> cm_showModal (fst (handleSave st (Resolved d) res)) \<and>
         cm_categories (fst (handleSave st (Resolved d) res)) = cm_categories (cm_fetchCategories st res) \<and>
         handleSave st (Rejected e) res =
           (st\<lparr>cm_modalError := or_else (response_message e) ''Failed to save category'',
               cm_modalLoading := False\<rparr>, [Http rq]) \<and>
         snd (cm_confirmDelete dst (Resolved d) res) =
           [Http (Delete_category (cat_id c)), Http Get_categories] \<and>
         \<not> cm_showDeleteModal (fst (cm_confirmDelete dst (Resolved d) res)) \<and>
         cm_categories (fst (cm_confirmDelete dst (Resolved d) res)) =
           cm_categories (cm_fetchCategories dst res) \<and>
         cm_confirmDelete dst (Rejected e) res =
           (dst\<lparr>cm_error := or_else (response_message e) ''Failed to delete category'',
               cm_showDeleteModal := False, cm_categoryToDelete := None, cm_deleteLoading := False\<rparr>,
            [Http (Delete_category (cat_id c))]) \<and>
         snd (il_confirmDelete ist (Resolved d) lres) =
           [Http (Delete_image (img_id img)), Http (Get_images (il_query ist))] \<and>
         \<not> il_showDeleteModal (fst (il_confirmDelete ist (Resolved d) lres)) \<and>
         il_images (fst (il_confirmDelete ist (Resolved d) lres)) = il_images (fetchImages ist lres) \<and>
         il_confirmDelete ist (Rejected e) lres =
           (ist\<lparr>il_error := or_else (response_message e) ''Failed to delete image'',
               il_showDeleteModal := False, il_imageToDelete := None, il_deletingId := None\<rparr>,
            [Http (Delete_image (img_id img))]) \<and>
         handleSubmit ust (Resolved d) =
           (ust\<lparr>iu_loading := False, iu_error := [], iu_success := True, iu_title := [],
               iu_category := [], iu_image := None, iu_preview := []\<rparr>,
            [Http (Post_upload (iu_title ust) (iu_category ust) f), Navigate_later ''/dashboard'']) \<and>
         handleSubmit ust (Rejected e) =
           (ust\<lparr>iu_loading := False, iu_success := False,
               iu_error := or_else (response_message e) ''Failed to upload image. Please try again.''\<rparr>,
            [Http (Post_upload (iu_title ust) (iu_category ust) f)])"
proof (intro conjI)
  note hs = handleSave_resolved [OF assms(1,2), of d res]
  show "snd (handleSave st (Resolved d) res) = [Http rq, Http Get_categories]"
    by (simp add: hs)
  show "\<not> cm_showModal (fst (handleSave st (Resolved d) res))"
    by (simp add: hs closeModal_def)
  show "cm_categories (fst (handleSave st (Resolved d) res)) = cm_categories (cm_fetchCategories st res)"
    by (simp add: hs closeModal_def cm_fetchCategories_frame)
  show "handleSave st (Rejected e) res =
           (st\<lparr>cm_modalError := or_else (response_message e) ''Failed to save category'',
               cm_modalLoading := False\<rparr>, [Http rq])"
    by (rule handleSave_rejected [OF assms(1,2)])
  note cd = cm_confirmDelete_resolved [OF assms(3), of d res]
  show "snd (cm_confirmDelete dst (Resolved d) res) =
           [Http (Delete_category (cat_id c)), Http Get_categories]"
    by (simp add: cd)
  show "\<not> cm_showDeleteModal (fst (cm_confirmDelete dst (Resolved d) res))"
    by (simp add: cd closeDeleteModal_def)
  show "cm_categories (fst (cm_confirmDelete dst (Resolved d) res)) =
           cm_categories (cm_fetchCategories dst res)"
    by (simp add: cd closeDeleteModal_def cm_fetchCategories_frame)
  show "cm_confirmDelete dst (Rejected e) res =
           (dst\<lparr>cm_error := or_else (response_message e) ''Failed to delete category'',
               cm_showDeleteModal := False, cm_categoryToDelete := None, cm_deleteLoading := False\<rparr>,
            [Http (Delete_category (cat_id c))])"
    by (rule cm_confirmDelete_rejected [OF assms(3)])
  note ic = il_confirmDelete_resolved [OF assms(4), of d lres]
  show "snd (il_confirmDelete ist (Resolved d) lres) =
           [Http (Delete_image (img_id img)), Http (Get_images (il_query ist))]"
    by (simp add: ic)
  show "\<not> il_showDeleteModal (fst (il_confirmDelete ist (Resolved d) lres))"
    by (simp add: ic)
  show "il_images (fst (il_confirmDelete ist (Resolved d) lres)) = il_images (fetchImages ist lres)"
    by (simp add: ic fetchImages_frame)
  show "il_confirmDelete ist (Rejected e) lres =
           (ist\<lparr>il_error := or_else (response_message e) ''Failed to delete image'',
               il_showDeleteModal := False, il_imageToDelete := None, il_deletingId := None\<rparr>,
            [Http (Delete_image (img_id img))])"
    by (rule il_confirmDelete_rejected [OF assms(4)])
  show "handleSubmit ust (Resolved d) =
           (ust\<lparr>iu_loading := False, iu_error := [], iu_success := True, iu_title := [],
               iu_category := [], iu_image := None, iu_preview := []\<rparr>,
            [Http (Post_upload (iu_title ust) (iu_category ust) f), Navigate_later ''/dashboard''])"
    by (rule handleSubmit_resolved [OF assms(5)])
  show "handleSubmit ust (Rejected e) =
           (ust\<lparr>iu_loading := False, iu_success := False,
               iu_error := or_else (response_message e) ''Failed to upload image. Please try again.''\<rparr>,
            [Http (Post_upload (iu_title ust) (iu_category ust) f)])"
    by (rule handleSubmit_rejected [OF assms(5)])
qed

theorem mutation_outcomes_witness:
  "trim (cm_categoryName editing_state) \<noteq> [] \<and>
   save_request editing_state = Some (Put_category ''c1'' name_wildlife) \<and>
   cm_categoryToDelete deleting_state = Some sample_category \<and>
   il_imageToDelete confirming_state = Some (sample_image ''i11'') \<and>
   iu_image staged_state = Some small_file \<and>
   snd (handleSave editing_state (Resolved JNull) (Resolved sample_categories)) =
     [Http (Put_category ''c1'' name_wildlife), Http Get_categories] \<and>
   \<not> cm_showModal (fst (handleSave editing_state (Resolved JNull) (Resolved sample_categories))) \<and>
   cm_showModal (fst (handleSave editing_state (Rejected sample_error) (Resolved sample_categories))) \<and>
   cm_modalError (fst (handleSave editing_state (Rejected sample_error) (Resolved sample_categories))) =
     ''Category is in use'' \<and>
   \<not> cm_showDeleteModal (fst (cm_confirmDelete deleting_state (Rejected sample_error) (Resolved sample_categories))) \<and>
   \<not> il_showDeleteModal (fst (il_confirmDelete confirming_state (Rejected sample_error) (list_ok [] (page_info 2 2 20)))) \<and>
   filter is_http (snd (handleSubmit staged_state (Resolved JNull))) =
     [Http (Post_upload ''Cat'' [] small_file)] \<and>
   iu_image (fst (handleSubmit staged_state (Rejected sample_error))) = Some small_file"
proof -
  have nw: "name_wildlife \<noteq> []" by (simp add: name_wildlife_def)
  have n: "cm_categoryName editing_state = padded_wildlife"
    by (simp add: editing_state_def)
  have h1: "trim (cm_categoryName editing_state) \<noteq> []"
    by (simp add: n trim_padded_wildlife nw)
  have h2: "save_request editing_state = Some (Put_category ''c1'' name_wildlife)"
    by (simp add: save_request_def editing_state_def openEditModal_def sample_category_def
        trim_padded_wildlife)
  have h3: "cm_categoryToDelete deleting_state = Some sample_category"
    by (simp add: deleting_state_def openDeleteModal_def)
  have h4: "il_imageToDelete confirming_state = Some (sample_image ''i11'')"
    by (simp add: confirming_state_def handleDeleteClick_def)
  have s: "iu_image staged_state = Some small_file" "iu_title staged_state = ''Cat''"
    "iu_category staged_state = []"
    by (simp_all add: staged_state_def reader_onloadend_def handleImageChange_def small_file_def
        max_file_size_def iu_initial_def)
  note t = mutation_outcomes [OF h1 h2 h3 h4 s(1), of JNull "Resolved sample_categories" sample_error
      "list_ok [] (page_info 2 2 20)"]
  have c1: "snd (handleSave editing_state (Resolved JNull) (Resolved sample_categories)) =
     [Http (Put_category ''c1'' name_wildlife), Http Get_categories]"
    using t by blast
  have c2: "\<not> cm_showModal (fst (handleSave editing_state (Resolved JNull) (Resolved sample_categories)))"
    using t by blast
  have e4: "handleSave editing_state (Rejected sample_error) (Resolved sample_categories) =
     (editing_state\<lparr>cm_modalError := or_else (response_message sample_error) ''Failed to save category'',
         cm_modalLoading := False\<rparr>, [Http (Put_category ''c1'' name_wildlife)])"
    using t by blast
  have c3: "cm_showModal (fst (handleSave editing_state (Rejected sample_error) (Resolved sample_categories)))"
    by (simp add: e4) (simp add: editing_state_def openEditModal_def)
  have m: "or_else (response_message sample_error) ''Failed to save category'' = ''Category is in use''"
    by (simp add: sample_error_def or_else_def)
  have c4: "cm_modalError (fst (handleSave editing_state (Rejected sample_error) (Resolved sample_categories))) =
     ''Category is in use''"
    by (simp add: e4 m)
  have e8: "cm_confirmDelete deleting_state (Rejected sample_error) (Resolved sample_categories) =
     (deleting_state\<lparr>cm_error := or_else (response_message sample_error) ''Failed to delete category'',
         cm_showDeleteModal := False, cm_categoryToDelete := None, cm_deleteLoading := False\<rparr>,
      [Http (Delete_category (cat_id sample_category))])"
    using t by blast
  have c5: "\<not> cm_showDeleteModal (fst (cm_confirmDelete deleting_state (Rejected sample_error) (Resolved sample_categories)))"
    by (simp add: e8)
  have e12: "il_confirmDelete confirming_state (Rejected sample_error) (list_ok [] (page_info 2 2 20)) =
     (confirming_state\<lparr>il_error := or_else (response_message sample_error) ''Failed to delete image'',
         il_showDeleteModal := False, il_imageToDelete := None, il_deletingId := None\<rparr>,
      [Http (Delete_image (img_id (sample_image ''i11'')))])"
    using t by blast
  have c6: "\<not> il_showDeleteModal (fst (il_confirmDelete confirming_state (Rejected sample_error) (list_ok [] (page_info 2 2 20))))"
    by (simp add: e12)
  have e13: "handleSubmit staged_state (Resolved JNull) =
     (staged_state\<lparr>iu_loading := False, iu_error := [], iu_success := True, iu_title := [],
         iu_category := [], iu_image := None, iu_preview := []\<rparr>,
      [Http (Post_upload (iu_title staged_state) (iu_category staged_state) small_file),
       Navigate_later ''/dashboard''])"
    using t by blast
  have c7: "filter is_http (snd (handleSubmit staged_state (Resolved JNull))) =
     [Http (Post_upload ''Cat'' [] small_file)]"
    by (simp add: e13 s)
  have e14: "handleSubmit staged_state (Rejected sample_error) =
     (staged_state\<lparr>iu_loading := False, iu_success := False,
         iu_error := or_else (response_message sample_error) ''Failed to upload image. Please try again.''\<rparr>,
      [Http (Post_upload (iu_title staged_state) (iu_category staged_state) small_file)])"
    using t by blast
  have c8: "iu_image (fst (handleSubmit staged_state (Rejected sample_error))) = Some small_file"
    by (simp add: e14 s)
  show ?thesis by (intro conjI h1 h2 h3 h4 s(1) c1 c2 c3 c4 c5 c6 c7 c8)
qed

text \<open>
  C7, as stated, fails in two places. When a delete request is rejected, the open
  confirmation dialog is closed, on the image page and on the category page alike. And a
  successful image creation sends the upload request alone, with no list request after
  it.
\<close>

theorem failed_delete_closes_dialog_counterexample:
  "il_showDeleteModal confirming_state \<and>
   \<not> il_showDeleteModal (fst (il_confirmDelete confirming_state (Rejected sample_error)
        (list_ok [] (page_info 2 2 20)))) \<and>
   cm_showDeleteModal deleting_state \<and>
   \<not> cm_showDeleteModal (fst (cm_confirmDelete deleting_state (Rejected sample_error)
        (Resolved sample_categories))) \<and>
   snd (handleSubmit staged_state (Resolved JNull)) =
     [Http (Post_upload ''Cat'' [] small_file), Navigate_later ''/dashboard'']"
  by (simp add: confirming_state_def handleDeleteClick_def il_confirmDelete_def deleting_state_def
      openDeleteModal_def cm_confirmDelete_def closeDeleteModal_def handleSubmit_def staged_state_def
      reader_onloadend_def handleImageChange_def small_file_def max_file_size_def iu_initial_def)

section \<open>The category list endpoint: results\<close>

lemma cm_fetchCategories_enveloped:
  "map_of kvs ''data'' = Some (JArr cs) \<Longrightarrow>
   cm_categories (cm_fetchCategories st (Resolved (JObj kvs))) = JArr cs"
  by (simp add: cm_fetchCategories_def opt_data_of_def)

lemma cm_fetchCategories_bare:
  "cm_categories (cm_fetchCategories st (Resolved (JArr cs))) = JArr cs"
  by (simp add: cm_fetchCategories_def opt_data_of_def)

lemma il_fetchCategories_enveloped:
  "map_of kvs ''data'' = Some (JArr cs) \<Longrightarrow>
   il_categories (il_fetchCategories st (Resolved (JObj kvs))) = JArr cs"
  by (simp add: il_fetchCategories_def opt_data_of_def)

lemma il_fetchCategories_bare:
  "il_categories (il_fetchCategories st (Resolved (JArr cs))) = JArr cs"
  by (simp add: il_fetchCategories_def opt_data_of_def)

lemma iu_fetchCategories_enveloped:
  "map_of kvs ''data'' = Some (JArr cs) \<Longrightarrow>
   iu_categories (iu_fetchCategories st (Resolved (JObj kvs))) = JArr cs"
  by (simp add: iu_fetchCategories_def)

lemma iu_fetchCategories_bare:
  "iu_categories (iu_fetchCategories st (Resolved (JArr cs))) = JUndefined"
  by (simp add: iu_fetchCategories_def)

text \<open>
  C8. The category page and the image listing decode the enveloped object and the bare
  array of one list to the same collection (the lemmas above, for every list). The upload
  page reads \<open>res.data.data\<close> only: for the bare array it sets its categories to
  \<open>undefined\<close>, on which rendering the selector throws.
\<close>

theorem upload_page_drops_bare_array:
  "cm_categories (cm_fetchCategories cm_initial (Resolved (JObj [(''data'', sample_categories)]))) = sample_categories \<and>
   cm_categories (cm_fetchCategories cm_initial (Resolved sample_categories)) = sample_categories \<and>
   il_categories (il_fetchCategories il_initial (Resolved (JObj [(''data'', sample_categories)]))) = sample_categories \<and>
   il_categories (il_fetchCategories il_initial (Resolved sample_categories)) = sample_categories \<and>
   iu_categories (iu_fetchCategories iu_initial (Resolved (JObj [(''data'', sample_categories)]))) = sample_categories \<and>
   iu_categories (iu_fetchCategories iu_initial (Resolved sample_categories)) = JUndefined \<and>
   length_read_throws (iu_categories (iu_fetchCategories iu_initial (Resolved sample_categories)))"
  by (simp add: sample_categories_def cm_fetchCategories_bare il_fetchCategories_bare
      iu_fetchCategories_bare cm_fetchCategories_enveloped il_fetchCategories_enveloped
      iu_fetchCategories_enveloped length_read_throws_def)

section \<open>Client-side validation: results\<close>

lemma trim_blank:
  assumes "\<forall>c \<in> set s. is_space c"
  shows "trim s = []"
proof -
  from assms have d: "dropWhile is_space s = []" by (induction s) simp_all
  show ?thesis by (simp only: trim_def d rev.simps dropWhile.simps)
qed

text \<open>
  The guard \<open>!categoryName.trim()\<close> of \<open>handleSave\<close> holds exactly for the names that are
  empty or made of white space only.
\<close>

lemma trim_empty_iff: "trim s = [] \<longleftrightarrow> (\<forall>c \<in> set s. is_space c)"
proof
  assume "trim s = []"
  then have "dropWhile is_space (rev (dropWhile is_space s)) = []"
    by (simp only: trim_def rev_is_Nil_conv)
  then have a: "\<forall>c \<in> set (dropWhile is_space s). is_space c"
    by (simp add: dropWhile_eq_Nil_conv)
  have "dropWhile is_space s = []"
  proof (rule ccontr)
    assume n: "dropWhile is_space s \<noteq> []"
    then have "\<not> is_space (hd (dropWhile is_space s))" by (rule hd_dropWhile)
    moreover from n have "hd (dropWhile is_space s) \<in> set (dropWhile is_space s)" by simp
    ultimately show False using a by blast
  qed
  then show "\<forall>c \<in> set s. is_space c" by (simp add: dropWhile_eq_Nil_conv)
next
  assume "\<forall>c \<in> set s. is_space c"
  then show "trim s = []" by (rule trim_blank)
qed

text \<open>
  C9. A selected file of more than \<open>10 * 1024 * 1024\<close> bytes only sets the size error, and
  a save with a category name that is empty or made of white space only (any of the code
  units that \<open>trim\<close> strips) only sets the modal's error; neither sends a request.
\<close>

theorem client_side_validation:
  "(max_file_size < file_size f \<longrightarrow>
      handleImageChange (Some f) st = (st\<lparr>iu_error := ''File size must be less than 10MB''\<rparr>, [])) \<and>
   ((\<forall>c \<in> set (cm_categoryName cst). is_space c) \<longrightarrow>
      handleSave cst mut res = (cst\<lparr>cm_modalError := ''Category name is required''\<rparr>, []))"
  by (simp add: handleImageChange_def handleSave_def trim_blank)

theorem client_side_validation_witness:
  "max_file_size < file_size big_file \<and>
   handleImageChange (Some big_file) staged_state =
     (staged_state\<lparr>iu_error := ''File size must be less than 10MB''\<rparr>, []) \<and>
   handleSave (cm_initial\<lparr>cm_categoryName := blank_name\<rparr>) (Resolved JNull) (Resolved JNull) =
     (cm_initial\<lparr>cm_categoryName := blank_name, cm_modalError := ''Category name is required''\<rparr>, []) \<and>
   handleSave cm_initial (Resolved JNull) (Resolved JNull) =
     (cm_initial\<lparr>cm_modalError := ''Category name is required''\<rparr>, [])"
proof -
  note t = client_side_validation [of big_file staged_state "cm_initial\<lparr>cm_categoryName := blank_name\<rparr>"
      "Resolved JNull" "Resolved JNull"]
  note u = client_side_validation [of big_file staged_state cm_initial "Resolved JNull" "Resolved JNull"]
  have a: "max_file_size < file_size big_file"
    by (simp add: max_file_size_def big_file_def)
  have b: "\<forall>c \<in> set (cm_categoryName (cm_initial\<lparr>cm_categoryName := blank_name\<rparr>)). is_space c"
    by (simp add: blank_name_def is_space_def)
  have b': "\<forall>c \<in> set (cm_categoryName cm_initial). is_space c"
    by (simp add: cm_initial_def)
  have c: "handleImageChange (Some big_file) staged_state =
     (staged_state\<lparr>iu_error := ''File size must be less than 10MB''\<rparr>, [])"
    by (rule mp [OF conjunct1 [OF t] a])
  have d: "handleSave (cm_initial\<lparr>cm_categoryName := blank_name\<rparr>) (Resolved JNull) (Resolved JNull) =
     ((cm_initial\<lparr>cm_categoryName := blank_name\<rparr>)\<lparr>cm_modalError := ''Category name is required''\<rparr>, [])"
    by (rule mp [OF conjunct2 [OF t] b])
  have e: "handleSave cm_initial (Resolved JNull) (Resolved JNull) =
     (cm_initial\<lparr>cm_modalError := ''Category name is required''\<rparr>, [])"
    by (rule mp [OF conjunct2 [OF u] b'])
  from a c d e show ?thesis by simp
qed

text \<open>
  C10. When the selected file is over the ceiling, the error message is the only part of
  the upload form's state that changes: the image staged before and its preview stay, and
  submitting the form then uploads that earlier image.
\<close>

theorem oversized_file_frame:
  assumes "max_file_size < file_size f"
  shows "fst (handleImageChange (Some f) st) = st\<lparr>iu_error := ''File size must be less than 10MB''\<rparr> \<and>
         iu_image (fst (handleImageChange (Some f) st)) = iu_image st \<and>
         iu_preview (fst (handleImageChange (Some f) st)) = iu_preview st \<and>
         iu_error (fst (handleImageChange (Some f) st)) = ''File size must be less than 10MB'' \<and>
         snd (handleImageChange (Some f) st) = [] \<and>
         (case iu_image st of
            None \<Rightarrow> True
          | Some g \<Rightarrow> hd (snd (handleSubmit (fst (handleImageChange (Some f) st)) res)) =
                Http (Post_upload (iu_title st) (iu_category st) g))"
  using assms
  by (cases res) (simp_all add: handleImageChange_def handleSubmit_def split: option.splits)

theorem oversized_file_frame_witness:
  "max_file_size < file_size big_file \<and>
   iu_image staged_state = Some small_file \<and>
   fst (handleImageChange (Some big_file) staged_state) =
     staged_state\<lparr>iu_error := ''File size must be less than 10MB''\<rparr> \<and>
   iu_image (fst (handleImageChange (Some big_file) staged_state)) = Some small_file \<and>
   iu_preview (fst (handleImageChange (Some big_file) staged_state)) = ''data:image/png;base64,AAAA'' \<and>
   hd (snd (handleSubmit (fst (handleImageChange (Some big_file) staged_state)) (Resolved JNull))) =
     Http (Post_upload ''Cat'' [] small_file)"
proof -
  have a: "max_file_size < file_size big_file"
    by (simp add: max_file_size_def big_file_def)
  have s: "iu_image staged_state = Some small_file" "iu_preview staged_state = ''data:image/png;base64,AAAA''"
    "iu_title staged_state = ''Cat''" "iu_category staged_state = []"
    by (simp_all add: staged_state_def reader_onloadend_def handleImageChange_def small_file_def
        max_file_size_def iu_initial_def)
  note t = oversized_file_frame [OF a, of staged_state "Resolved JNull"]
  have t1: "fst (handleImageChange (Some big_file) staged_state) =
     staged_state\<lparr>iu_error := ''File size must be less than 10MB''\<rparr>"
    by (rule conjunct1 [OF t])
  have t2: "iu_image (fst (handleImageChange (Some big_file) staged_state)) = Some small_file"
    using conjunct1 [OF conjunct2 [OF t]] by (simp only: s)
  have t3: "iu_preview (fst (handleImageChange (Some big_file) staged_state)) = ''data:image/png;base64,AAAA''"
    using conjunct1 [OF conjunct2 [OF conjunct2 [OF t]]] by (simp only: s)
  have "case iu_image staged_state of
          None \<Rightarrow> True
        | Some g \<Rightarrow> hd (snd (handleSubmit (fst (handleImageChange (Some big_file) staged_state)) (Resolved JNull))) =
              Http (Post_upload (iu_title staged_state) (iu_category staged_state) g)"
    by (rule conjunct2 [OF conjunct2 [OF conjunct2 [OF conjunct2 [OF conjunct2 [OF t]]]]])
  then have t6: "hd (snd (handleSubmit (fst (handleImageChange (Some big_file) staged_state)) (Resolved JNull))) =
     Http (Post_upload ''Cat'' [] small_file)"
    by (simp only: s option.case)
  show ?thesis by (intro conjI a s(1) t1 t2 t3 t6)
qed

end
